theory Spec2Isabelle
  imports Main "HOL-Library.Sublist"
begin

section \<open>Text extractor: \<open>simulateAIProcessing\<close>\<close>

text \<open>
  Text is a list of characters; a character stands for one code unit below 256.
  The extractor looks for ASCII keywords in the lower-cased text and for one
  regular expression in the original text.
\<close>

subsection \<open>String primitives of the platform\<close>

text \<open>\<open>String.prototype.toLowerCase\<close> on code units below 256: the letters A to Z and
  the upper-case letters of the Latin-1 block move up by 32, everything else stays.\<close>

definition toLowerCaseChar :: "char \<Rightarrow> char" where
  "toLowerCaseChar c =
     (let n = (of_char c :: nat)
      in if (65 \<le> n \<and> n \<le> 90) \<or> (192 \<le> n \<and> n \<le> 222 \<and> n \<noteq> 215)
         then char_of (n + 32) else c)"

definition toLowerCase :: "string \<Rightarrow> string" where
  "toLowerCase s = map toLowerCaseChar s"

text \<open>\<open>s.includes(p)\<close> of the source: \<open>p\<close> occurs in \<open>s\<close> as a contiguous run of characters.\<close>

fun str_includes :: "string \<Rightarrow> string \<Rightarrow> bool" where
  "str_includes [] p = (p = [])"
| "str_includes (c # cs) p = (prefix p (c # cs) \<or> str_includes cs p)"

subsection \<open>The time pattern\<close>

text \<open>
  The source matches \<^verbatim>\<open>/(\d{1,2}:\d{2}|\d{1,2}\s*am|\d{1,2}\s*pm)/i\<close> against the
  original text. \<open>match\<close> without the global flag returns the match that starts
  leftmost; at one start position the three alternatives are tried in order, and
  \<^verbatim>\<open>\d{1,2}\<close> tries two digits before one.
\<close>

definition isDigit :: "char \<Rightarrow> bool" where
  "isDigit c = (c \<in> set ''0123456789'')"

definition isSpace :: "char \<Rightarrow> bool" where
  "isSpace c = ((of_char c :: nat) \<in> {9, 10, 11, 12, 13, 32, 160})"

text \<open>The ways \<^verbatim>\<open>\d{1,2}\<close> can consume a prefix of the input, longest first: each
  entry is the digits taken and the rest of the input.\<close>

fun digits12 :: "string \<Rightarrow> (string \<times> string) list" where
  "digits12 (c1 # c2 # r) =
     (if isDigit c1
      then (if isDigit c2 then [([c1, c2], r)] else []) @ [([c1], c2 # r)]
      else [])"
| "digits12 [c1] = (if isDigit c1 then [([c1], [])] else [])"
| "digits12 [] = []"

text \<open>\<^verbatim>\<open>:\d{2}\<close> after the digits.\<close>

fun colonMinutes :: "string \<Rightarrow> string option" where
  "colonMinutes (c # m1 # m2 # r) =
     (if c = CHR '':'' \<and> isDigit m1 \<and> isDigit m2 then Some [c, m1, m2] else None)"
| "colonMinutes r = None"

text \<open>\<^verbatim>\<open>\s*am\<close> or \<^verbatim>\<open>\s*pm\<close> after the digits, ignoring case; \<open>x\<close> is the lower-case
  first letter.\<close>

definition meridiem :: "char \<Rightarrow> string \<Rightarrow> string option" where
  "meridiem x r =
     (case dropWhile isSpace r of
        c # m # r' \<Rightarrow>
          if toLowerCaseChar c = x \<and> toLowerCaseChar m = CHR ''m''
          then Some (takeWhile isSpace r @ [c, m]) else None
      | _ \<Rightarrow> None)"

text \<open>One alternative at one start position: the first way of taking the digits
  after which the tail matches.\<close>

fun firstOf :: "(string \<Rightarrow> string option) \<Rightarrow> (string \<times> string) list \<Rightarrow> string option" where
  "firstOf k [] = None"
| "firstOf k ((ds, r) # alts) =
     (case k r of Some t \<Rightarrow> Some (ds @ t) | None \<Rightarrow> firstOf k alts)"

definition matchHere :: "string \<Rightarrow> string option" where
  "matchHere s =
     (case firstOf colonMinutes (digits12 s) of
        Some t \<Rightarrow> Some t
      | None \<Rightarrow>
         (case firstOf (meridiem (CHR ''a'')) (digits12 s) of
            Some t \<Rightarrow> Some t
          | None \<Rightarrow> firstOf (meridiem (CHR ''p'')) (digits12 s)))"

text \<open>\<open>text.match(re)\<close>: \<open>None\<close> is the source's \<open>null\<close>, \<open>Some t\<close> the captured group
  \<open>timeMatch[1]\<close> (the group spans the whole pattern).\<close>

fun matchTime :: "string \<Rightarrow> string option" where
  "matchTime [] = matchHere []"
| "matchTime (c # cs) =
     (case matchHere (c # cs) of Some t \<Rightarrow> Some t | None \<Rightarrow> matchTime cs)"

subsection \<open>What the time pattern matches\<close>



subsection \<open>The extraction result\<close>

record task =
  task_text :: string
  task_category :: string

record habits =
  wakeTime :: "string option"
  workoutIntended :: "bool option"

record extractedData =
  tasks :: "task list"
  habits :: habits
  mood :: string
  insights :: "string list"
  paraCategory :: "string option"
  scheduledItems :: "string list"

definition PARA_PROJECTS :: string where "PARA_PROJECTS = ''Projects''"
definition PARA_AREAS :: string where "PARA_AREAS = ''Areas''"
definition PARA_RESOURCES :: string where "PARA_RESOURCES = ''Resources''"
definition PARA_ARCHIVES :: string where "PARA_ARCHIVES = ''Archives''"

definition extractedData0 :: extractedData where
  "extractedData0 =
     \<lparr> tasks = [], habits = \<lparr> wakeTime = None, workoutIntended = None \<rparr>,
       mood = ''neutral'', insights = [], paraCategory = None, scheduledItems = [] \<rparr>"

definition responses :: "string list" where
  "responses =
     [''I've analyzed your input and organized the information. Let me break down what I found:'',
      ''Great! I've processed your message and extracted key information for your dashboard.'',
      ''Thanks for sharing that with me! Here's how I've organized what you told me:'',
      ''I've captured the important details and structured them for your Life OS.'']"

subsection \<open>The rules, in source order\<close>

definition wakeRule :: "string \<Rightarrow> string \<Rightarrow> extractedData \<Rightarrow> extractedData" where
  "wakeRule txt lowerText e =
     (if str_includes lowerText ''wake'' \<or> str_includes lowerText ''morning''
      then (case matchTime txt of
              Some t \<Rightarrow>
                e\<lparr> habits := (habits e)\<lparr> wakeTime := Some t \<rparr>,
                   insights := insights e @ [''Wake time noted: '' @ t] \<rparr>
            | None \<Rightarrow> e)
      else e)"

definition workoutRule :: "string \<Rightarrow> extractedData \<Rightarrow> extractedData" where
  "workoutRule lowerText e =
     (if str_includes lowerText ''workout'' \<or> str_includes lowerText ''exercise''
         \<or> str_includes lowerText ''gym''
      then e\<lparr> habits := (habits e)\<lparr> workoutIntended := Some True \<rparr>,
              insights := insights e @ [''Workout activity detected''] \<rparr>
      else e)"

definition taskKeywords :: "string list" where
  "taskKeywords = [''finish'', ''complete'', ''start'', ''work on'', ''prepare'']"

text \<open>The object literal pushed for a keyword.\<close>

definition mkTask :: "string \<Rightarrow> task" where
  "mkTask keyword =
     \<lparr> task_text = ''Complete task related to: '' @ keyword, task_category = ''Projects'' \<rparr>"

text \<open>The body of the \<open>forEach\<close> over \<open>taskKeywords\<close>: one push per keyword found.\<close>

definition pushTask :: "string \<Rightarrow> string \<Rightarrow> extractedData \<Rightarrow> extractedData" where
  "pushTask lowerText keyword e =
     (if str_includes lowerText keyword
      then e\<lparr> tasks := tasks e @ [mkTask keyword] \<rparr>
      else e)"

definition taskRule :: "string \<Rightarrow> extractedData \<Rightarrow> extractedData" where
  "taskRule lowerText e =
     (if str_includes lowerText ''task'' \<or> str_includes lowerText ''todo''
         \<or> str_includes lowerText ''need to''
      then fold (pushTask lowerText) taskKeywords e
      else e)"

definition learnRule :: "string \<Rightarrow> extractedData \<Rightarrow> extractedData" where
  "learnRule lowerText e =
     (if str_includes lowerText ''learn'' \<or> str_includes lowerText ''study''
         \<or> str_includes lowerText ''research''
      then e\<lparr> paraCategory := Some PARA_RESOURCES,
              insights := insights e @
                [''Learning activity detected - categorized under Resources''] \<rparr>
      else e)"

definition projectRule :: "string \<Rightarrow> extractedData \<Rightarrow> extractedData" where
  "projectRule lowerText e =
     (if str_includes lowerText ''project'' \<or> str_includes lowerText ''deadline''
         \<or> str_includes lowerText ''deliver''
      then e\<lparr> paraCategory := Some PARA_PROJECTS,
              insights := insights e @ [''Project-related activity detected''] \<rparr>
      else e)"

definition moodRule :: "string \<Rightarrow> extractedData \<Rightarrow> extractedData" where
  "moodRule lowerText e =
     (if str_includes lowerText ''stressed'' \<or> str_includes lowerText ''overwhelmed''
         \<or> str_includes lowerText ''tired''
      then e\<lparr> mood := ''low'' \<rparr>
      else if str_includes lowerText ''excited'' \<or> str_includes lowerText ''great''
         \<or> str_includes lowerText ''awesome''
      then e\<lparr> mood := ''high'' \<rparr>
      else e)"

text \<open>The structured part of \<open>simulateAIProcessing\<close>: the value of \<open>extractedData\<close>
  when the function returns.\<close>

definition extractData :: "string \<Rightarrow> extractedData" where
  "extractData txt =
     (let lowerText = toLowerCase txt
      in moodRule lowerText
          (projectRule lowerText
            (learnRule lowerText
              (taskRule lowerText
                (workoutRule lowerText
                  (wakeRule txt lowerText extractedData0))))))"

text \<open>The whole function. The delay has no effect on the result; \<open>rnd\<close> is the value
  of \<open>Math.floor(Math.random() * responses.length)\<close>, a number from 0 to 3.\<close>

definition simulateAIProcessing :: "nat \<Rightarrow> string \<Rightarrow> string \<times> extractedData" where
  "simulateAIProcessing rnd txt = (responses ! (rnd mod 4), extractData txt)"

section \<open>Day store\<close>

subsection \<open>Values\<close>

text \<open>
  The values that \<open>JSON.parse\<close> produces and \<open>JSON.stringify\<close> writes. A number is
  held as the text that JavaScript prints for it (\<open>0\<close> for zero); the store never
  computes with numbers. A day record is an object: a mapping from field names to
  values.
\<close>

datatype json =
    JNull | JBool bool | JNum string | JStr string | JArr "json list"
  | JObj "string \<Rightarrow> json option"

type_synonym obj = "string \<rightharpoonup> json"

datatype exn = SyntaxError | TypeError | QuotaExceededError | ServiceError string

text \<open>Truthiness, as \<open>x || y\<close> and \<open>x ? y : z\<close> see it.\<close>

fun truthy :: "json \<Rightarrow> bool" where
  "truthy JNull = False"
| "truthy (JBool b) = b"
| "truthy (JNum n) = (n \<noteq> ''0'')"
| "truthy (JStr s) = (s \<noteq> [])"
| "truthy (JArr xs) = True"
| "truthy (JObj m) = True"

text \<open>Decimal digits of an index, for the keys of a spread string or array.\<close>

fun showNat :: "nat \<Rightarrow> string" where
  "showNat n =
     (if n < 10 then [char_of (48 + n)] else showNat (n div 10) @ [char_of (48 + n mod 10)])"

text \<open>\<open>{ ...x }\<close> for a value \<open>x\<close> that may be \<open>undefined\<close> (\<open>None\<close>): an object gives
  its fields, a string its characters and an array its elements under their indices,
  anything else nothing. So \<open>{ ...(x || {}) }\<close> is \<open>{ ...x }\<close>.\<close>

fun spread :: "json option \<Rightarrow> obj" where
  "spread (Some (JObj m)) = m"
| "spread (Some (JStr s)) = map_of (zip (map showNat [0..<length s]) (map (\<lambda>c. JStr [c]) s))"
| "spread (Some (JArr xs)) = map_of (zip (map showNat [0..<length xs]) xs)"
| "spread x = Map.empty"

text \<open>
  Property access where the key is a date (\<open>YYYY-MM-DD\<close>). A date is no index, not
  \<open>length\<close> and no inherited property name, so: reading from \<open>null\<close> is a
  \<open>TypeError\<close>, reading from an object gives the entry or \<open>undefined\<close>, reading from a
  boolean, number, string or array gives \<open>undefined\<close>.
\<close>

fun getProp :: "json \<Rightarrow> string \<Rightarrow> exn + json option" where
  "getProp JNull k = Inl TypeError"
| "getProp (JObj m) k = Inr (m k)"
| "getProp v k = Inr None"

text \<open>
  \<open>all[date] = v\<close>, giving \<open>all\<close> as \<open>JSON.stringify\<close> sees it afterwards. The code is
  module code and runs in strict mode: creating a property on a boolean, number or
  string is a \<open>TypeError\<close>. On an array the assignment creates a property that is no
  element, which \<open>JSON.stringify\<close> leaves out.
\<close>

fun setProp :: "json \<Rightarrow> string \<Rightarrow> json \<Rightarrow> exn + json" where
  "setProp (JObj m) k v = Inr (JObj (m(k \<mapsto> v)))"
| "setProp (JArr xs) k v = Inr (JArr xs)"
| "setProp x k v = Inl TypeError"

text \<open>\<open>Object.keys(x).length === 0\<close>. \<open>Object.keys(null)\<close> is a \<open>TypeError\<close>; a boolean
  or a number has no keys; a string has its indices, an array too.\<close>

fun keysEmpty :: "json \<Rightarrow> exn + bool" where
  "keysEmpty JNull = Inl TypeError"
| "keysEmpty (JBool b) = Inr True"
| "keysEmpty (JNum n) = Inr True"
| "keysEmpty (JStr s) = Inr (s = [])"
| "keysEmpty (JArr xs) = Inr (xs = [])"
| "keysEmpty (JObj m) = Inr (dom m = {})"

subsection \<open>Configuration\<close>

record env =
  VITE_BACKEND :: "string option"
  VITE_SUPABASE_URL :: "string option"
  VITE_SUPABASE_KEY :: "string option"

text \<open>\<open>x || d\<close> on an optional string: an absent or empty \<open>x\<close> gives \<open>d\<close>.\<close>

definition orDefault :: "string option \<Rightarrow> string \<Rightarrow> string" where
  "orDefault x d = (case x of None \<Rightarrow> d | Some s \<Rightarrow> if s = [] then d else s)"

definition BACKEND :: "env \<Rightarrow> string" where
  "BACKEND e = toLowerCase (orDefault (VITE_BACKEND e) ''local'')"

definition SUPABASE_URL :: "env \<Rightarrow> string" where
  "SUPABASE_URL e = orDefault (VITE_SUPABASE_URL e) []"

definition SUPABASE_KEY :: "env \<Rightarrow> string" where
  "SUPABASE_KEY e = orDefault (VITE_SUPABASE_KEY e) []"

text \<open>The constant \<open>supabase\<close>: \<open>True\<close> when the client is created, \<open>False\<close> when it is
  \<open>null\<close>.\<close>

definition supabase :: "env \<Rightarrow> bool" where
  "supabase e = (BACKEND e = ''supabase'' \<and> SUPABASE_URL e \<noteq> [] \<and> SUPABASE_KEY e \<noteq> [])"

text \<open>The test \<open>BACKEND === "supabase" && supabase\<close> that opens every remote operation.\<close>

definition useRemote :: "env \<Rightarrow> bool" where
  "useRemote e = (BACKEND e = ''supabase'' \<and> supabase e)"

definition DEFAULT_GOALS :: obj where
  "DEFAULT_GOALS =
     [''wakeGoal'' \<mapsto> JStr ''07:00'', ''workoutGoal'' \<mapsto> JStr ''19:00'',
      ''lunchTime'' \<mapsto> JStr ''13:30'', ''dinnerTime'' \<mapsto> JStr ''21:00'']"

subsection \<open>Local storage\<close>

text \<open>
  \<open>localStorage\<close> maps a key to a text, and the browser may refuse a write (quota
  reached, storage disabled): \<open>writable\<close> says whether it takes writes. The program
  looks at a stored text in two ways only, whether it is empty and what \<open>JSON.parse\<close>
  makes of it. \<open>JSON.parse\<close> and \<open>JSON.stringify\<close> are functions of the language, not
  of the program, so a text is given by what they make of it: the empty text, a
  text that is not JSON (\<open>JSON.parse\<close> throws a \<open>SyntaxError\<close>), or a JSON text of a
  value \<open>v\<close> (any value: \<open>null\<close>, a number, a string, an array, an object of
  anything). Two JSON texts of the same value are not told apart.
  \<open>JSON.stringify(v)\<close> is a JSON text of \<open>v\<close>.
\<close>

datatype raw = EmptyText | NotJSON | JSONText json

record localStorage =
  items :: "string \<rightharpoonup> raw"
  writable :: bool

definition STORAGE_KEY :: string where
  "STORAGE_KEY = ''flowstate.daily''"

definition getItem :: "localStorage \<Rightarrow> string \<Rightarrow> raw option" where
  "getItem ls k = items ls k"

text \<open>A refused write throws and leaves the storage as it was.\<close>

definition setItem :: "localStorage \<Rightarrow> string \<Rightarrow> raw \<Rightarrow> exn + localStorage" where
  "setItem ls k v =
     (if writable ls then Inr (ls\<lparr> items := (items ls)(k \<mapsto> v) \<rparr>) else Inl QuotaExceededError)"

definition JSON_parse :: "raw \<Rightarrow> exn + json" where
  "JSON_parse r = (case r of JSONText v \<Rightarrow> Inr v | _ \<Rightarrow> Inl SyntaxError)"

definition JSON_stringify :: "json \<Rightarrow> raw" where
  "JSON_stringify v = JSONText v"

text \<open>The body of the \<open>try\<close> block of \<open>loadAllDaysLocal\<close>; \<open>raw ? \<dots> : {}\<close> takes the
  second branch for \<open>null\<close> and for the empty text.\<close>

definition loadAllDaysLocal_try :: "localStorage \<Rightarrow> exn + json" where
  "loadAllDaysLocal_try ls =
     (case getItem ls STORAGE_KEY of
        None \<Rightarrow> Inr (JObj Map.empty)
      | Some r \<Rightarrow> if r \<noteq> EmptyText then JSON_parse r else Inr (JObj Map.empty))"

definition loadAllDaysLocal :: "localStorage \<Rightarrow> exn + json" where
  "loadAllDaysLocal ls =
     (case loadAllDaysLocal_try ls of Inr v \<Rightarrow> Inr v | Inl e \<Rightarrow> Inr (JObj Map.empty))"

text \<open>No \<open>try\<close> here: a refused write throws to the caller.\<close>

definition saveAllDaysLocal :: "json \<Rightarrow> localStorage \<Rightarrow> exn + localStorage" where
  "saveAllDaysLocal obj ls = setItem ls STORAGE_KEY (JSON_stringify obj)"

text \<open>\<open>all[date] = { ...(all[date] || {}), ...data }\<close>, the save, and \<open>return
  all[date]\<close>: the fields of \<open>data\<close> over those of the record already there.\<close>

definition upsertDayLocal :: "string \<Rightarrow> obj \<Rightarrow> localStorage \<Rightarrow> exn + (obj \<times> localStorage)" where
  "upsertDayLocal date data ls =
     (case loadAllDaysLocal ls of
        Inl e \<Rightarrow> Inl e
      | Inr all \<Rightarrow>
         (case getProp all date of
            Inl e \<Rightarrow> Inl e
          | Inr old \<Rightarrow>
             (let merged = spread old ++ data
              in case setProp all date (JObj merged) of
                   Inl e \<Rightarrow> Inl e
                 | Inr all' \<Rightarrow>
                    (case saveAllDaysLocal all' ls of
                       Inl e \<Rightarrow> Inl e
                     | Inr ls' \<Rightarrow> Inr (merged, ls')))))"

text \<open>\<open>all[date] || null\<close>; \<open>None\<close> is the source's \<open>null\<close>.\<close>

definition readDayLocal :: "string \<Rightarrow> localStorage \<Rightarrow> exn + json option" where
  "readDayLocal date ls =
     (case loadAllDaysLocal ls of
        Inl e \<Rightarrow> Inl e
      | Inr all \<Rightarrow>
         (case getProp all date of
            Inl e \<Rightarrow> Inl e
          | Inr None \<Rightarrow> Inr None
          | Inr (Some v) \<Rightarrow> Inr (if truthy v then Some v else None)))"

subsection \<open>The remote table\<close>

text \<open>
  The hosted service is not part of the repository. It is modelled as the table
  \<open>flowstate_days\<close> of the remote schema: one row per date with the columns \<open>date\<close>
  (unique) and \<open>payload\<close>. A query either throws, or resolves to an object with the
  fields \<open>data\<close> and \<open>error\<close>. The state of the service at the time of a query is a
  parameter of that query: each query succeeds or fails on its own.
\<close>

record row =
  row_date :: string
  row_payload :: obj

type_synonym table = "row list"

datatype 'a response = Throws exn | Resolves "'a option" "exn option"

datatype health = Up | Unreachable exn | Refusing exn

text \<open>\<open>from("flowstate_days").select("*")\<close>.\<close>

definition select_all :: "health \<Rightarrow> table \<Rightarrow> (row list) response" where
  "select_all h t =
     (case h of Up \<Rightarrow> Resolves (Some t) None
      | Unreachable e \<Rightarrow> Throws e
      | Refusing e \<Rightarrow> Resolves None (Some e))"

text \<open>Insert, or on a conflict on \<open>date\<close> replace the columns of the row with those
  given.\<close>

fun upsert_row :: "row \<Rightarrow> table \<Rightarrow> table" where
  "upsert_row r [] = [r]"
| "upsert_row r (x # xs) = (if row_date x = row_date r then r # xs else x # upsert_row r xs)"

text \<open>\<open>from("flowstate_days").upsert(r, { onConflict: "date" }).select()\<close>: the rows
  written come back as \<open>data\<close>.\<close>

definition upsert_select :: "health \<Rightarrow> row \<Rightarrow> table \<Rightarrow> (row list) response \<times> table" where
  "upsert_select h r t =
     (case h of Up \<Rightarrow> (Resolves (Some [r]) None, upsert_row r t)
      | Unreachable e \<Rightarrow> (Throws e, t)
      | Refusing e \<Rightarrow> (Resolves None (Some e), t))"

text \<open>\<open>from("flowstate_days").select("*").eq("date", d).maybeSingle()\<close>: no row gives
  \<open>data: null\<close>, one row gives that row, more than one is an error.\<close>

definition select_eq_maybeSingle :: "health \<Rightarrow> string \<Rightarrow> table \<Rightarrow> row response" where
  "select_eq_maybeSingle h d t =
     (case h of
        Up \<Rightarrow> (case filter (\<lambda>r. row_date r = d) t of
                 [] \<Rightarrow> Resolves None None
               | [r] \<Rightarrow> Resolves (Some r) None
               | _ \<Rightarrow> Resolves None (Some (ServiceError ''multiple rows'')))
      | Unreachable e \<Rightarrow> Throws e
      | Refusing e \<Rightarrow> Resolves None (Some e))"

subsection \<open>The adapter\<close>

text \<open>The state the store works on: the local storage of the browser and the remote
  table.\<close>

type_synonym store = "localStorage \<times> table"

text \<open>The \<open>try\<close> block of \<open>loadAllDays\<close>, given the response of the query. \<open>if (error)
  throw error\<close> comes first; \<open>data.forEach\<close> on \<open>null\<close> is a \<open>TypeError\<close>.\<close>

definition loadAllDays_try :: "(row list) response \<Rightarrow> exn + json" where
  "loadAllDays_try resp =
     (case resp of
        Throws e \<Rightarrow> Inl e
      | Resolves d (Some e) \<Rightarrow> Inl e
      | Resolves None None \<Rightarrow> Inl TypeError
      | Resolves (Some rows) None \<Rightarrow>
          Inr (JObj (fold (\<lambda>r entries. entries(row_date r \<mapsto> JObj (row_payload r)))
                      rows Map.empty)))"

text \<open>The \<open>catch\<close> block and the last line call \<open>loadAllDaysLocal\<close>.\<close>

definition loadAllDays :: "env \<Rightarrow> health \<Rightarrow> store \<Rightarrow> exn + json" where
  "loadAllDays e h st =
     (if useRemote e
      then (case loadAllDays_try (select_all h (snd st)) of
              Inr entries \<Rightarrow> Inr entries
            | Inl err \<Rightarrow> loadAllDaysLocal (fst st))
      else loadAllDaysLocal (fst st))"

text \<open>The \<open>try\<close> block of \<open>upsertDay\<close>, given the response: \<open>upserted?.[0]?.payload ||
  data\<close>.\<close>

definition upsertDay_try :: "(row list) response \<Rightarrow> obj \<Rightarrow> exn + obj" where
  "upsertDay_try resp data =
     (case resp of
        Throws e \<Rightarrow> Inl e
      | Resolves d (Some e) \<Rightarrow> Inl e
      | Resolves (Some (r # rs)) None \<Rightarrow> Inr (row_payload r)
      | Resolves d None \<Rightarrow> Inr data)"

text \<open>The \<open>catch\<close> block and the last line call \<open>upsertDayLocal\<close>, outside any \<open>try\<close>:
  what it throws reaches the caller.\<close>

definition upsertDay :: "env \<Rightarrow> health \<Rightarrow> string \<Rightarrow> obj \<Rightarrow> store \<Rightarrow> exn + (obj \<times> store)" where
  "upsertDay e h date data st =
     (if useRemote e
      then (let (resp, t') = upsert_select h \<lparr> row_date = date, row_payload = data \<rparr> (snd st)
            in case upsertDay_try resp data of
                 Inr v \<Rightarrow> Inr (v, (fst st, t'))
               | Inl err \<Rightarrow>
                   (case upsertDayLocal date data (fst st) of
                      Inl e' \<Rightarrow> Inl e'
                    | Inr (v, ls') \<Rightarrow> Inr (v, (ls', t'))))
      else (case upsertDayLocal date data (fst st) of
              Inl e' \<Rightarrow> Inl e'
            | Inr (v, ls') \<Rightarrow> Inr (v, (ls', snd st))))"

text \<open>The \<open>try\<close> block of \<open>readDay\<close>, given the response: \<open>data?.payload || null\<close>.\<close>

definition readDay_try :: "row response \<Rightarrow> exn + json option" where
  "readDay_try resp =
     (case resp of
        Throws e \<Rightarrow> Inl e
      | Resolves d (Some e) \<Rightarrow> Inl e
      | Resolves d None \<Rightarrow> Inr (map_option (\<lambda>r. JObj (row_payload r)) d))"

text \<open>The \<open>catch\<close> block and the last line call \<open>readDayLocal\<close>, outside any \<open>try\<close>.\<close>

definition readDay :: "env \<Rightarrow> health \<Rightarrow> string \<Rightarrow> store \<Rightarrow> exn + json option" where
  "readDay e h date st =
     (if useRemote e
      then (case readDay_try (select_eq_maybeSingle h date (snd st)) of
              Inr v \<Rightarrow> Inr v
            | Inl err \<Rightarrow> readDayLocal date (fst st))
      else readDayLocal date (fst st))"

subsection \<open>Seed\<close>

definition seedRecord :: obj where
  "seedRecord =
     [''wakeTime'' \<mapsto> JStr ''10:00'',
      ''lunch'' \<mapsto> JObj [''time'' \<mapsto> JStr ''13:30'', ''details'' \<mapsto> JStr ''veg + one vegetable + dal''],
      ''dinner'' \<mapsto> JObj [''time'' \<mapsto> JStr ''21:00'',
                           ''details'' \<mapsto> JStr ''grilled protein (chicken or fish)''],
      ''workout'' \<mapsto> JObj [''time'' \<mapsto> JStr ''19:00'', ''status'' \<mapsto> JStr ''skipped''],
      ''notes'' \<mapsto> JStr ''Kickoff day. Establishing routine and dashboard.'',
      ''goals'' \<mapsto> JObj DEFAULT_GOALS]"

text \<open>
  \<open>seedIfEmpty\<close>. \<open>today\<close> is the value of \<open>todayISO()\<close>; \<open>h1\<close> and \<open>h2\<close> are the states
  of the service at the query of \<open>loadAllDays\<close> and at the query of \<open>upsertDay\<close>. The
  function returns nothing: the result is the state of the store afterwards.
\<close>

definition seedIfEmpty :: "env \<Rightarrow> health \<Rightarrow> health \<Rightarrow> string \<Rightarrow> store \<Rightarrow> exn + store" where
  "seedIfEmpty e h1 h2 today st =
     (case loadAllDays e h1 st of
        Inl err \<Rightarrow> Inl err
      | Inr all \<Rightarrow>
         (case keysEmpty all of
            Inl err \<Rightarrow> Inl err
          | Inr noKeys \<Rightarrow>
              if noKeys
              then (case upsertDay e h2 today seedRecord st of
                      Inl err \<Rightarrow> Inl err
                    | Inr (v, st') \<Rightarrow> Inr st')
              else Inr st))"

section \<open>Dashboard: saving and merging the extraction result\<close>

text \<open>\<open>xs.join(sep)\<close>.\<close>

fun join :: "string \<Rightarrow> string list \<Rightarrow> string" where
  "join sep [] = []"
| "join sep [x] = x"
| "join sep (x # y # ys) = x @ sep @ join sep (y # ys)"

text \<open>String conversion of a value, as \<open>x + "\<dots>"\<close> sees it. An array gives its
  elements joined by commas, with nothing for \<open>null\<close>.\<close>

fun toString :: "json \<Rightarrow> string"
  and elementStrings :: "json list \<Rightarrow> string list" where
  "toString JNull = ''null''"
| "toString (JBool b) = (if b then ''true'' else ''false'')"
| "toString (JNum n) = n"
| "toString (JStr s) = s"
| "toString (JArr xs) = join '','' (elementStrings xs)"
| "toString (JObj m) = ''[object Object]''"
| "elementStrings [] = []"
| "elementStrings (x # xs) = (case x of JNull \<Rightarrow> [] | _ \<Rightarrow> toString x) # elementStrings xs"

text \<open>
  The handler that the dashboard passes to the chat as \<open>onProcess\<close>. \<open>data\<close> is the
  record of the current day as the dashboard holds it. This is the object
  \<open>updatedData\<close> handed to \<open>saveDay\<close>. The source writes the separator after the
  previous notes as a backslash followed by the letter n.
\<close>

definition updatedData :: "obj \<Rightarrow> extractedData \<Rightarrow> obj" where
  "updatedData data processedData =
     (let u0 = data;
          u1 = (case wakeTime (habits processedData) of
                  Some t \<Rightarrow> if t \<noteq> [] then u0(''wakeTime'' \<mapsto> JStr t) else u0
                | None \<Rightarrow> u0);
          u2 = (if workoutIntended (habits processedData) = Some True
                then u1(''workout'' \<mapsto> JObj ((spread (u1 ''workout''))(''status'' \<mapsto> JStr ''intended'')))
                else u1);
          u3 = (if mood processedData \<noteq> ''neutral''
                then u2(''mood'' \<mapsto> JStr (mood processedData)) else u2);
          u4 = (if length (insights processedData) > 0
                then (let prevNotes =
                            (case data ''notes'' of
                               Some v \<Rightarrow> if truthy v then toString v @ [CHR 0x5C, CHR ''n''] else []
                             | None \<Rightarrow> [])
                      in u3(''notes'' \<mapsto>
                            JStr (prevNotes @ ''AI Insights: '' @ join '', '' (insights processedData))))
                else u3)
      in u4)"

text \<open>\<open>saveDay\<close> of the dashboard for the date shown: the upsert, then a reload for the
  list of dates. The result is the record and the mapping that go into the state of
  the component, and the store afterwards.\<close>

definition saveDay ::
  "env \<Rightarrow> health \<Rightarrow> health \<Rightarrow> string \<Rightarrow> obj \<Rightarrow> store \<Rightarrow> exn + ((obj \<times> json) \<times> store)" where
  "saveDay e h1 h2 date partial st =
     (case upsertDay e h1 date partial st of
        Inl err \<Rightarrow> Inl err
      | Inr (updated, st') \<Rightarrow>
          (case loadAllDays e h2 st' of
             Inl err \<Rightarrow> Inl err
           | Inr reloaded \<Rightarrow> Inr ((updated, reloaded), st')))"

definition onProcess ::
  "env \<Rightarrow> health \<Rightarrow> health \<Rightarrow> string \<Rightarrow> obj \<Rightarrow> extractedData \<Rightarrow> store
     \<Rightarrow> exn + ((obj \<times> json) \<times> store)" where
  "onProcess e h1 h2 date data processedData st =
     saveDay e h1 h2 date (updatedData data processedData) st"

subsection \<open>The time format of the data model\<close>

text \<open>The data model of the specification gives every time of day as \<open>HH:MM\<close> on the
  24-hour clock: two digits below 24, a colon, two digits below 60.\<close>

definition digitVal :: "char \<Rightarrow> nat" where
  "digitVal c = of_char c - 48"

definition spec_HHMM :: "string \<Rightarrow> bool" where
  "spec_HHMM s =
     (case s of
        [h1, h2, c, m1, m2] \<Rightarrow>
          isDigit h1 \<and> isDigit h2 \<and> c = CHR '':'' \<and> isDigit m1 \<and> isDigit m2 \<and>
          digitVal h1 * 10 + digitVal h2 < 24 \<and> digitVal m1 * 10 + digitVal m2 < 60
      | _ \<Rightarrow> False)"

section \<open>Properties of the extractor\<close>

subsection \<open>Each rule leaves the other fields alone\<close>

lemma moodRule_frame:
  "tasks (moodRule l e) = tasks e" "habits (moodRule l e) = habits e"
  "insights (moodRule l e) = insights e" "paraCategory (moodRule l e) = paraCategory e"
  by (simp_all add: moodRule_def)

lemma projectRule_frame:
  "tasks (projectRule l e) = tasks e" "habits (projectRule l e) = habits e"
  "mood (projectRule l e) = mood e"
  by (simp_all add: projectRule_def)

lemma learnRule_frame:
  "tasks (learnRule l e) = tasks e" "habits (learnRule l e) = habits e"
  "mood (learnRule l e) = mood e"
  by (simp_all add: learnRule_def)

lemma pushTask_frame:
  "habits (pushTask l k e) = habits e" "mood (pushTask l k e) = mood e"
  "insights (pushTask l k e) = insights e" "paraCategory (pushTask l k e) = paraCategory e"
  by (simp_all add: pushTask_def)

lemma fold_pushTask_frame:
  "habits (fold (pushTask l) ks e) = habits e \<and> mood (fold (pushTask l) ks e) = mood e \<and>
   insights (fold (pushTask l) ks e) = insights e \<and>
   paraCategory (fold (pushTask l) ks e) = paraCategory e"
  by (induction ks arbitrary: e) (simp_all add: pushTask_frame)

lemma taskRule_frame:
  "habits (taskRule l e) = habits e" "mood (taskRule l e) = mood e"
  "insights (taskRule l e) = insights e" "paraCategory (taskRule l e) = paraCategory e"
  by (simp_all add: taskRule_def fold_pushTask_frame)

lemma workoutRule_frame:
  "tasks (workoutRule l e) = tasks e" "mood (workoutRule l e) = mood e"
  "paraCategory (workoutRule l e) = paraCategory e"
  "wakeTime (habits (workoutRule l e)) = wakeTime (habits e)"
  by (simp_all add: workoutRule_def)

lemma wakeRule_frame:
  "tasks (wakeRule t l e) = tasks e" "mood (wakeRule t l e) = mood e"
  "paraCategory (wakeRule t l e) = paraCategory e"
  by (simp_all add: wakeRule_def split: option.splits)

text \<open>The \<open>forEach\<close> loop appends the entries of the keywords found, in list order.\<close>

lemma fold_pushTask_tasks:
  "tasks (fold (pushTask l) ks e) = tasks e @ map mkTask (filter (str_includes l) ks)"
  by (induction ks arbitrary: e) (simp_all add: pushTask_def)

lemma mkTask_inj: "mkTask a = mkTask b \<longleftrightarrow> a = b"
  by (auto simp: mkTask_def)

lemma count_list_map_inj:
  "(\<And>a b. f a = f b \<longleftrightarrow> a = b) \<Longrightarrow> count_list (map f xs) (f k) = count_list xs k"
  by (induction xs) auto

lemma count_list_filter: "count_list (filter P xs) k = (if P k then count_list xs k else 0)"
  by (induction xs) auto

lemma count_list_distinct: "distinct xs \<Longrightarrow> count_list xs k = (if k \<in> set xs then 1 else 0)"
  by (induction xs) auto

subsection \<open>Category, tasks and mood\<close>

text \<open>
  Claim C5. \<open>paraCategory\<close> holds one value. The project rule runs after the learning
  rule, so a text with a project keyword (project, deadline, deliver) gets
  \<open>Projects\<close> whether or not a learning keyword (learn, study, research) occurs too; a
  text with a learning keyword only gets \<open>Resources\<close>; a text with neither keeps the
  initial \<open>null\<close>.
\<close>

theorem paraCategory_last_rule_wins:
  "paraCategory (extractData txt) =
     (let l = toLowerCase txt in
      if str_includes l ''project'' \<or> str_includes l ''deadline'' \<or> str_includes l ''deliver''
      then Some ''Projects''
      else if str_includes l ''learn'' \<or> str_includes l ''study'' \<or> str_includes l ''research''
      then Some ''Resources'' else None)"
  by (simp add: extractData_def Let_def moodRule_frame projectRule_def learnRule_def
        taskRule_frame workoutRule_frame wakeRule_frame extractedData0_def
        PARA_PROJECTS_def PARA_RESOURCES_def)

theorem paraCategory_last_rule_wins_witness:
  "paraCategory (extractData ''Research for the Project'') = Some ''Projects'' \<and>
   paraCategory (extractData ''study maths'') = Some ''Resources'' \<and>
   paraCategory (extractData ''hello'') = None"
proof -
  have "(let l = toLowerCase ''Research for the Project'' in
      if str_includes l ''project'' \<or> str_includes l ''deadline'' \<or> str_includes l ''deliver''
      then Some ''Projects''
      else if str_includes l ''learn'' \<or> str_includes l ''study'' \<or> str_includes l ''research''
      then Some ''Resources'' else None) = Some ''Projects''"
    by code_simp
  moreover have "(let l = toLowerCase ''study maths'' in
      if str_includes l ''project'' \<or> str_includes l ''deadline'' \<or> str_includes l ''deliver''
      then Some ''Projects''
      else if str_includes l ''learn'' \<or> str_includes l ''study'' \<or> str_includes l ''research''
      then Some ''Resources'' else None) = Some ''Resources''"
    by code_simp
  moreover have "(let l = toLowerCase ''hello'' in
      if str_includes l ''project'' \<or> str_includes l ''deadline'' \<or> str_includes l ''deliver''
      then Some ''Projects''
      else if str_includes l ''learn'' \<or> str_includes l ''study'' \<or> str_includes l ''research''
      then Some ''Resources'' else None) = (None :: string option)"
    by code_simp
  ultimately show ?thesis
    by (simp only: paraCategory_last_rule_wins)
qed

text \<open>
  Claim C6. When the lower-cased text contains a task keyword (task, todo, need to),
  \<open>tasks\<close> holds the entry \<open>{ text: "Complete task related to: <verb>", category:
  "Projects" }\<close> for the verbs of the fixed list (finish, complete, start, work on,
  prepare) that occur in the lower-cased text, in the order of that list, each exactly
  once; without a task keyword \<open>tasks\<close> is empty.
\<close>

theorem tasks_in_keyword_order:
  "tasks (extractData txt) =
     (let l = toLowerCase txt in
      if str_includes l ''task'' \<or> str_includes l ''todo'' \<or> str_includes l ''need to''
      then map mkTask (filter (str_includes l) taskKeywords)
      else [])
   \<and> count_list (tasks (extractData txt)) (mkTask k) =
     (let l = toLowerCase txt in
      if (str_includes l ''task'' \<or> str_includes l ''todo'' \<or> str_includes l ''need to'')
         \<and> k \<in> set taskKeywords \<and> str_includes l k
      then 1 else 0)"
proof -
  have eq: "tasks (extractData txt) =
     (let l = toLowerCase txt in
      if str_includes l ''task'' \<or> str_includes l ''todo'' \<or> str_includes l ''need to''
      then map mkTask (filter (str_includes l) taskKeywords)
      else [])"
    by (simp add: extractData_def Let_def moodRule_frame projectRule_frame learnRule_frame
          taskRule_def fold_pushTask_tasks workoutRule_frame wakeRule_frame extractedData0_def)
  have d: "distinct taskKeywords"
    by (simp add: taskKeywords_def)
  have "count_list (tasks (extractData txt)) (mkTask k) =
     (let l = toLowerCase txt in
      if (str_includes l ''task'' \<or> str_includes l ''todo'' \<or> str_includes l ''need to'')
         \<and> k \<in> set taskKeywords \<and> str_includes l k
      then 1 else 0)"
    unfolding eq Let_def
    by (simp add: count_list_map_inj[of mkTask, OF mkTask_inj] count_list_filter
          count_list_distinct[OF d])
  with eq show ?thesis by simp
qed

theorem tasks_in_keyword_order_witness:
  "tasks (extractData ''I need to prepare slides and finish the report'') =
     [\<lparr> task_text = ''Complete task related to: finish'', task_category = ''Projects'' \<rparr>,
      \<lparr> task_text = ''Complete task related to: prepare'', task_category = ''Projects'' \<rparr>]"
proof -
  have "(let l = toLowerCase ''I need to prepare slides and finish the report'' in
      if str_includes l ''task'' \<or> str_includes l ''todo'' \<or> str_includes l ''need to''
      then map mkTask (filter (str_includes l) taskKeywords)
      else []) =
     [\<lparr> task_text = ''Complete task related to: finish'', task_category = ''Projects'' \<rparr>,
      \<lparr> task_text = ''Complete task related to: prepare'', task_category = ''Projects'' \<rparr>]"
    by code_simp
  with tasks_in_keyword_order[of "''I need to prepare slides and finish the report''"]
  show ?thesis by (simp only:)
qed

text \<open>
  Claim C7. \<open>mood\<close> is \<open>low\<close> when the lower-cased text contains stressed,
  overwhelmed or tired; otherwise \<open>high\<close> when it contains excited, great or
  awesome; otherwise \<open>neutral\<close>. The negative test comes first, so a text with words
  of both kinds is \<open>low\<close>.
\<close>

theorem mood_negative_first:
  "mood (extractData txt) =
     (let l = toLowerCase txt in
      if str_includes l ''stressed'' \<or> str_includes l ''overwhelmed'' \<or> str_includes l ''tired''
      then ''low''
      else if str_includes l ''excited'' \<or> str_includes l ''great'' \<or> str_includes l ''awesome''
      then ''high'' else ''neutral'')"
  by (simp add: extractData_def Let_def moodRule_def projectRule_frame learnRule_frame
        taskRule_frame workoutRule_frame wakeRule_frame extractedData0_def)

theorem mood_negative_first_witness:
  "mood (extractData ''Tired but excited'') = ''low'' \<and>
   mood (extractData ''had a great workout, feeling excited'') = ''high''"
proof -
  have "(let l = toLowerCase ''Tired but excited'' in
      if str_includes l ''stressed'' \<or> str_includes l ''overwhelmed'' \<or> str_includes l ''tired''
      then ''low''
      else if str_includes l ''excited'' \<or> str_includes l ''great'' \<or> str_includes l ''awesome''
      then ''high'' else ''neutral'') = ''low''"
    by code_simp
  moreover have "(let l = toLowerCase ''had a great workout, feeling excited'' in
      if str_includes l ''stressed'' \<or> str_includes l ''overwhelmed'' \<or> str_includes l ''tired''
      then ''low''
      else if str_includes l ''excited'' \<or> str_includes l ''great'' \<or> str_includes l ''awesome''
      then ''high'' else ''neutral'') = ''high''"
    by code_simp
  ultimately show ?thesis
    by (simp only: mood_negative_first)
qed

subsection \<open>The time pattern\<close>

























subsection \<open>The wake rule\<close>










section \<open>Properties of the day store\<close>

subsection \<open>Local backend\<close>

lemma loadAllDaysLocal_eq:
  "loadAllDaysLocal ls =
     Inr (case getItem ls STORAGE_KEY of Some (JSONText v) \<Rightarrow> v | _ \<Rightarrow> JObj Map.empty)"
  by (simp add: loadAllDaysLocal_def loadAllDaysLocal_try_def JSON_parse_def
      split: option.splits raw.splits)

lemma loadAllDaysLocal_total: "\<exists>v. loadAllDaysLocal ls = Inr v"
  by (simp add: loadAllDaysLocal_eq)

lemma saveAllDaysLocal_Inr:
  assumes "saveAllDaysLocal v ls = Inr ls'"
  shows "loadAllDaysLocal ls' = Inr v" and "writable ls' = writable ls"
    and "writable ls" and "getItem ls' STORAGE_KEY = Some (JSONText v)"
    and "k \<noteq> STORAGE_KEY \<Longrightarrow> getItem ls' k = getItem ls k"
  using assms
  by (auto simp: saveAllDaysLocal_def setItem_def JSON_stringify_def loadAllDaysLocal_eq getItem_def
      split: if_splits)

lemma saveAllDaysLocal_writable:
  "writable ls \<Longrightarrow> \<exists>ls'. saveAllDaysLocal v ls = Inr ls'"
  by (simp add: saveAllDaysLocal_def setItem_def)

lemma saveAllDaysLocal_refused:
  "\<not> writable ls \<Longrightarrow> saveAllDaysLocal v ls = Inl QuotaExceededError"
  by (simp add: saveAllDaysLocal_def setItem_def)

lemma saveAllDaysLocal_same:
  "writable ls \<Longrightarrow> getItem ls STORAGE_KEY = Some (JSONText v) \<Longrightarrow> saveAllDaysLocal v ls = Inr ls"
  by (simp add: saveAllDaysLocal_def setItem_def JSON_stringify_def getItem_def fun_upd_idem)


lemma upsertDayLocal_Inr:
  assumes "upsertDayLocal d p ls = Inr (v, ls')"
  obtains all old all' where "loadAllDaysLocal ls = Inr all" "getProp all d = Inr old"
    "v = spread old ++ p" "setProp all d (JObj v) = Inr all'" "saveAllDaysLocal all' ls = Inr ls'"
  using assms
  by (auto simp: upsertDayLocal_def Let_def split: sum.splits)

lemma upsertDayLocal_obj:
  assumes "loadAllDaysLocal ls = Inr (JObj m)" and "writable ls"
  shows "upsertDayLocal d p ls =
           Inr (spread (m d) ++ p,
                ls\<lparr> items := (items ls)(STORAGE_KEY \<mapsto> JSONText (JObj (m(d \<mapsto> JObj (spread (m d) ++ p))))) \<rparr>)"
  using assms
  by (simp add: upsertDayLocal_def Let_def saveAllDaysLocal_def setItem_def JSON_stringify_def)

lemma readDayLocal_eq:
  "loadAllDaysLocal ls = Inr all \<Longrightarrow>
   readDayLocal d ls =
     (case getProp all d of
        Inl e \<Rightarrow> Inl e
      | Inr None \<Rightarrow> Inr None
      | Inr (Some v) \<Rightarrow> Inr (if truthy v then Some v else None))"
  by (simp add: readDayLocal_def)

lemma upsertDayLocal_returns:
  assumes "writable ls"
    and "\<forall>x. getItem ls STORAGE_KEY = Some (JSONText x) \<longrightarrow> (\<exists>m. x = JObj m)"
  shows "\<exists>v ls'. upsertDayLocal d p ls = Inr (v, ls')"
proof -
  have "\<exists>m. loadAllDaysLocal ls = Inr (JObj m)"
  proof (cases "getItem ls STORAGE_KEY")
    case None
    then show ?thesis by (simp add: loadAllDaysLocal_eq)
  next
    case (Some r)
    with assms(2) show ?thesis by (cases r) (auto simp: loadAllDaysLocal_eq)
  qed
  then obtain m where "loadAllDaysLocal ls = Inr (JObj m)" by blast
  with assms(1) show ?thesis
    by (simp add: upsertDayLocal_obj)
qed

text \<open>
  Claim C9. Whatever is stored under the key (nothing, the empty text, a text that
  is not JSON, or a JSON text of any value), \<open>loadAllDaysLocal\<close> returns a value and
  does not throw. When nothing is stored, or the text is empty or is not JSON, it
  returns the empty mapping, and reading any date then gives \<open>null\<close>, not an error
  and not a record. A JSON text gives the value it denotes.
\<close>

theorem loadAllDaysLocal_never_throws:
  "(\<exists>v. loadAllDaysLocal ls = Inr v) \<and>
   (getItem ls STORAGE_KEY = None \<or> getItem ls STORAGE_KEY = Some EmptyText \<or>
    getItem ls STORAGE_KEY = Some NotJSON
      \<longrightarrow> loadAllDaysLocal ls = Inr (JObj Map.empty) \<and> readDayLocal d ls = Inr None) \<and>
   (\<forall>v. getItem ls STORAGE_KEY = Some (JSONText v) \<longrightarrow> loadAllDaysLocal ls = Inr v)"
  by (auto simp: loadAllDaysLocal_eq readDayLocal_def)

theorem loadAllDaysLocal_never_throws_witness:
  "loadAllDaysLocal \<lparr> items = [STORAGE_KEY \<mapsto> NotJSON], writable = True \<rparr> = Inr (JObj Map.empty) \<and>
   readDayLocal ''2024-05-01'' \<lparr> items = [STORAGE_KEY \<mapsto> NotJSON], writable = True \<rparr> = Inr None"
  using loadAllDaysLocal_never_throws
          [of "\<lparr> items = [STORAGE_KEY \<mapsto> NotJSON], writable = True \<rparr>" "''2024-05-01''"]
  by (simp add: getItem_def)



subsection \<open>Remote backend\<close>

text \<open>Two configurations used below: the remote backend with its credentials, and no
  configuration at all.\<close>

lemma useRemote_example:
  "useRemote \<lparr> VITE_BACKEND = Some ''Supabase'', VITE_SUPABASE_URL = Some ''https://x.supabase.co'',
       VITE_SUPABASE_KEY = Some ''key'' \<rparr>"
  by code_simp

lemma useLocal_example:
  "\<not> useRemote \<lparr> VITE_BACKEND = None, VITE_SUPABASE_URL = None, VITE_SUPABASE_KEY = None \<rparr>"
  by code_simp

lemma loadAllDays_local: "\<not> useRemote e \<Longrightarrow> loadAllDays e h st = loadAllDaysLocal (fst st)"
  by (simp add: loadAllDays_def)

lemma upsertDay_local:
  "\<not> useRemote e \<Longrightarrow>
   upsertDay e h d p st =
     (case upsertDayLocal d p (fst st) of Inl x \<Rightarrow> Inl x | Inr (v, ls') \<Rightarrow> Inr (v, (ls', snd st)))"
  by (simp add: upsertDay_def)

lemma loadAllDays_remote_up:
  "useRemote e \<Longrightarrow>
   loadAllDays e Up st =
     Inr (JObj (fold (\<lambda>r entries. entries(row_date r \<mapsto> JObj (row_payload r))) (snd st) Map.empty))"
  by (simp add: loadAllDays_def select_all_def loadAllDays_try_def)

lemma upsertDay_remote_up:
  "useRemote e \<Longrightarrow>
   upsertDay e Up d p st = Inr (p, (fst st, upsert_row \<lparr> row_date = d, row_payload = p \<rparr> (snd st)))"
  by (simp add: upsertDay_def upsert_select_def upsertDay_try_def)

lemma readDay_remote_up_single:
  "useRemote e \<Longrightarrow>
   readDay e Up d (ls, [\<lparr> row_date = d, row_payload = p \<rparr>]) = Inr (Some (JObj p))"
  by (simp add: readDay_def select_eq_maybeSingle_def readDay_try_def)

lemma loadAllDays_fallback:
  "useRemote e \<Longrightarrow> h \<noteq> Up \<Longrightarrow> loadAllDays e h st = loadAllDaysLocal (fst st)"
  by (cases h) (simp_all add: loadAllDays_def loadAllDays_try_def select_all_def)

lemma upsertDay_fallback:
  "useRemote e \<Longrightarrow> h \<noteq> Up \<Longrightarrow>
   upsertDay e h d p st =
     (case upsertDayLocal d p (fst st) of Inl x \<Rightarrow> Inl x | Inr (v, ls') \<Rightarrow> Inr (v, (ls', snd st)))"
  by (cases h) (auto simp: upsertDay_def upsert_select_def upsertDay_try_def)

lemma readDay_fallback:
  "useRemote e \<Longrightarrow> h \<noteq> Up \<Longrightarrow> readDay e h d st = readDayLocal d (fst st)"
  by (cases h) (simp_all add: readDay_def readDay_try_def select_eq_maybeSingle_def)

text \<open>What the local operations do on the JSON text \<open>null\<close>, and when \<open>readDayLocal\<close>
  returns.\<close>

lemma readDayLocal_null:
  "getItem ls STORAGE_KEY = Some (JSONText JNull) \<Longrightarrow> readDayLocal d ls = Inl TypeError"
  by (simp add: readDayLocal_def loadAllDaysLocal_eq)

lemma upsertDayLocal_null:
  "getItem ls STORAGE_KEY = Some (JSONText JNull) \<Longrightarrow> upsertDayLocal d p ls = Inl TypeError"
  by (simp add: upsertDayLocal_def loadAllDaysLocal_eq)

lemma readDayLocal_returns:
  "getItem ls STORAGE_KEY \<noteq> Some (JSONText JNull) \<Longrightarrow> \<exists>v. readDayLocal d ls = Inr v"
proof -
  assume a: "getItem ls STORAGE_KEY \<noteq> Some (JSONText JNull)"
  obtain all where l: "loadAllDaysLocal ls = Inr all" using loadAllDaysLocal_total by blast
  have "all \<noteq> JNull"
    using a l by (auto simp: loadAllDaysLocal_eq split: option.splits raw.splits)
  then show ?thesis
    by (cases all) (auto simp: readDayLocal_eq[OF l] split: option.splits)
qed

text \<open>
  Claim C2, as stated, fails in its second half. The \<open>catch\<close> blocks of \<open>readDay\<close> and
  \<open>upsertDay\<close> call \<open>readDayLocal\<close> and \<open>upsertDayLocal\<close> outside any \<open>try\<close>. With the
  service unreachable and the text \<open>null\<close> stored under the key, \<open>readDay\<close> ends with
  the \<open>TypeError\<close> of \<open>all[date]\<close>; with the service unreachable and a local storage
  that refuses the write, \<open>upsertDay\<close> ends with the error of \<open>setItem\<close>.
\<close>

theorem fallback_lets_local_error_through:
  "readDay \<lparr> VITE_BACKEND = Some ''Supabase'', VITE_SUPABASE_URL = Some ''https://x.supabase.co'',
       VITE_SUPABASE_KEY = Some ''key'' \<rparr> (Unreachable (ServiceError ''offline'')) ''2024-05-01''
     (\<lparr> items = [STORAGE_KEY \<mapsto> JSONText JNull], writable = True \<rparr>, [])
   = Inl TypeError \<and>
   upsertDay \<lparr> VITE_BACKEND = Some ''Supabase'', VITE_SUPABASE_URL = Some ''https://x.supabase.co'',
       VITE_SUPABASE_KEY = Some ''key'' \<rparr> (Unreachable (ServiceError ''offline'')) ''2024-05-01''
     [''notes'' \<mapsto> JStr ''x''] (\<lparr> items = Map.empty, writable = False \<rparr>, [])
   = Inl QuotaExceededError"
  by (simp add: readDay_fallback[OF useRemote_example] upsertDay_fallback[OF useRemote_example]
        readDayLocal_def upsertDayLocal_def loadAllDaysLocal_eq getItem_def
        saveAllDaysLocal_def setItem_def)

text \<open>
  Claim C2, amended. With the remote backend configured, when the query of
  \<open>loadAllDays\<close>, \<open>upsertDay\<close> or \<open>readDay\<close> fails (it throws, or it resolves with an
  \<open>error\<close>), the operation has the outcome of the local operation on the local
  storage as it is (for \<open>upsertDay\<close> with the local storage updated by it): the error
  of the service does not reach the caller. \<open>loadAllDays\<close> then returns a value in
  every case; \<open>upsertDay\<close> returns a value when the storage takes the write and the
  text stored under the key, if it is a JSON text, is that of an object; \<open>readDay\<close>
  returns a value when the text stored under the key is not the JSON text \<open>null\<close>.
\<close>

theorem remote_failure_gives_local_outcome:
  assumes "useRemote e" and "h \<noteq> Up"
  shows "loadAllDays e h (ls, t) = loadAllDaysLocal ls \<and>
         upsertDay e h d p (ls, t) =
           (case upsertDayLocal d p ls of Inl x \<Rightarrow> Inl x | Inr (v, ls') \<Rightarrow> Inr (v, (ls', t))) \<and>
         readDay e h d (ls, t) = readDayLocal d ls \<and>
         (\<exists>v. loadAllDays e h (ls, t) = Inr v) \<and>
         (writable ls \<and> (\<forall>x. getItem ls STORAGE_KEY = Some (JSONText x) \<longrightarrow> (\<exists>m. x = JObj m))
            \<longrightarrow> (\<exists>v st'. upsertDay e h d p (ls, t) = Inr (v, st'))) \<and>
         (getItem ls STORAGE_KEY \<noteq> Some (JSONText JNull) \<longrightarrow> (\<exists>v. readDay e h d (ls, t) = Inr v))"
proof -
  have 1: "loadAllDays e h (ls, t) = loadAllDaysLocal ls"
    using loadAllDays_fallback[OF assms, of "(ls, t)"] by simp
  have 2: "upsertDay e h d p (ls, t) =
           (case upsertDayLocal d p ls of Inl x \<Rightarrow> Inl x | Inr (v, ls') \<Rightarrow> Inr (v, (ls', t)))"
    using upsertDay_fallback[OF assms, of d p "(ls, t)"] by (auto split: sum.splits)
  have 3: "readDay e h d (ls, t) = readDayLocal d ls"
    using readDay_fallback[OF assms, of d "(ls, t)"] by simp
  have 4: "\<exists>v. loadAllDays e h (ls, t) = Inr v"
    unfolding 1 by (rule loadAllDaysLocal_total)
  have 5: "writable ls \<and> (\<forall>x. getItem ls STORAGE_KEY = Some (JSONText x) \<longrightarrow> (\<exists>m. x = JObj m))
            \<longrightarrow> (\<exists>v st'. upsertDay e h d p (ls, t) = Inr (v, st'))"
  proof
    assume "writable ls \<and> (\<forall>x. getItem ls STORAGE_KEY = Some (JSONText x) \<longrightarrow> (\<exists>m. x = JObj m))"
    then obtain v ls' where "upsertDayLocal d p ls = Inr (v, ls')"
      using upsertDayLocal_returns[of ls d p] by blast
    then show "\<exists>v st'. upsertDay e h d p (ls, t) = Inr (v, st')"
      unfolding 2 by simp
  qed
  have 6: "getItem ls STORAGE_KEY \<noteq> Some (JSONText JNull) \<longrightarrow> (\<exists>v. readDay e h d (ls, t) = Inr v)"
    unfolding 3 using readDayLocal_returns by blast
  from 1 2 3 4 5 6 show ?thesis by blast
qed

theorem remote_failure_gives_local_outcome_witness:
  "readDay \<lparr> VITE_BACKEND = Some ''Supabase'', VITE_SUPABASE_URL = Some ''https://x.supabase.co'',
       VITE_SUPABASE_KEY = Some ''key'' \<rparr> (Unreachable (ServiceError ''offline'')) ''2024-05-01''
     (\<lparr> items = [STORAGE_KEY \<mapsto> JSONText (JObj [''2024-05-01'' \<mapsto> JObj [''notes'' \<mapsto> JStr ''a'']])],
        writable = True \<rparr>, [])
   = Inr (Some (JObj [''notes'' \<mapsto> JStr ''a''])) \<and>
   loadAllDays \<lparr> VITE_BACKEND = Some ''Supabase'', VITE_SUPABASE_URL = Some ''https://x.supabase.co'',
       VITE_SUPABASE_KEY = Some ''key'' \<rparr> (Refusing (ServiceError ''401''))
     (\<lparr> items = Map.empty, writable = True \<rparr>, [])
   = Inr (JObj Map.empty) \<and>
   (\<exists>v st'. upsertDay \<lparr> VITE_BACKEND = Some ''Supabase'',
       VITE_SUPABASE_URL = Some ''https://x.supabase.co'', VITE_SUPABASE_KEY = Some ''key'' \<rparr>
       (Refusing (ServiceError ''401'')) ''2024-05-01'' [''notes'' \<mapsto> JStr ''x'']
       (\<lparr> items = Map.empty, writable = True \<rparr>, []) = Inr (v, st'))"
proof -
  let ?e = "\<lparr> VITE_BACKEND = Some ''Supabase'', VITE_SUPABASE_URL = Some ''https://x.supabase.co'',
       VITE_SUPABASE_KEY = Some ''key'' \<rparr>"
  let ?ls = "\<lparr> items = [STORAGE_KEY \<mapsto> JSONText (JObj [''2024-05-01'' \<mapsto> JObj [''notes'' \<mapsto> JStr ''a'']])],
        writable = True \<rparr>"
  let ?fresh = "\<lparr> items = Map.empty, writable = True \<rparr>"
  have h1: "Unreachable (ServiceError ''offline'') \<noteq> Up" and h2: "Refusing (ServiceError ''401'') \<noteq> Up"
    by simp_all
  note t1 = remote_failure_gives_local_outcome[OF useRemote_example h1,
              of ?ls "[]" "''2024-05-01''" "[''notes'' \<mapsto> JStr ''x'']"]
  note t2 = remote_failure_gives_local_outcome[OF useRemote_example h2,
              of ?fresh "[]" "''2024-05-01''" "[''notes'' \<mapsto> JStr ''x'']"]
  have "readDayLocal ''2024-05-01'' ?ls = Inr (Some (JObj [''notes'' \<mapsto> JStr ''a'']))"
    by (simp add: readDayLocal_def loadAllDaysLocal_eq getItem_def)
  with t1 have 1: "readDay ?e (Unreachable (ServiceError ''offline'')) ''2024-05-01'' (?ls, [])
       = Inr (Some (JObj [''notes'' \<mapsto> JStr ''a'']))"
    by (simp only:)
  have "loadAllDaysLocal ?fresh = Inr (JObj Map.empty)"
    by (simp add: loadAllDaysLocal_eq getItem_def)
  with t2 have 2: "loadAllDays ?e (Refusing (ServiceError ''401'')) (?fresh, []) = Inr (JObj Map.empty)"
    by (simp only:)
  have "writable ?fresh \<and>
     (\<forall>x. getItem ?fresh STORAGE_KEY = Some (JSONText x) \<longrightarrow> (\<exists>m. x = JObj m))"
    by (simp add: getItem_def)
  with t2 have 3: "\<exists>v st'. upsertDay ?e (Refusing (ServiceError ''401'')) ''2024-05-01''
       [''notes'' \<mapsto> JStr ''x''] (?fresh, []) = Inr (v, st')"
    by blast
  from 1 2 3 show ?thesis by (simp only: simp_thms)
qed

text \<open>
  The local backend merges: when the local storage holds an object, two upserts for
  one date return and store the fields of the record that was there, overwritten by
  those of \<open>p1\<close>, overwritten by those of \<open>p2\<close>; on a date without a record that is the
  merge of \<open>p1\<close> and \<open>p2\<close>.
\<close>

lemma upsertDayLocal_twice:
  assumes "loadAllDaysLocal ls = Inr (JObj m)"
    and "upsertDayLocal d p1 ls = Inr (v1, ls1)" and "upsertDayLocal d p2 ls1 = Inr (v2, ls2)"
  shows "v2 = spread (m d) ++ p1 ++ p2" and "readDayLocal d ls2 = Inr (Some (JObj v2))"
proof -
  from assms(2) obtain all old all' where l: "loadAllDaysLocal ls = Inr all"
    and o: "getProp all d = Inr old" and v1: "v1 = spread old ++ p1"
    and s: "setProp all d (JObj v1) = Inr all'" and w: "saveAllDaysLocal all' ls = Inr ls1"
    by (rule upsertDayLocal_Inr)
  from l assms(1) have all: "all = JObj m" by simp
  with o s have old: "old = m d" and all': "all' = JObj (m(d \<mapsto> JObj v1))" by auto
  have l1: "loadAllDaysLocal ls1 = Inr (JObj (m(d \<mapsto> JObj v1)))"
    using saveAllDaysLocal_Inr(1)[OF w] all' by simp
  from assms(3) obtain b old2 b' where l2: "loadAllDaysLocal ls1 = Inr b"
    and o2: "getProp b d = Inr old2" and v2: "v2 = spread old2 ++ p2"
    and s2: "setProp b d (JObj v2) = Inr b'" and w2: "saveAllDaysLocal b' ls1 = Inr ls2"
    by (rule upsertDayLocal_Inr)
  from l1 l2 have b: "b = JObj (m(d \<mapsto> JObj v1))" by simp
  with o2 have "old2 = Some (JObj v1)" by auto
  with v2 v1 old show "v2 = spread (m d) ++ p1 ++ p2" by simp
  from b s2 have "b' = JObj ((m(d \<mapsto> JObj v1))(d \<mapsto> JObj v2))" by auto
  with saveAllDaysLocal_Inr(1)[OF w2] show "readDayLocal d ls2 = Inr (Some (JObj v2))"
    by (simp add: readDayLocal_def)
qed

text \<open>
  Claim C1 (two upserts for one date give the shallow merge of the two partial
  records, on the local and on the remote backend). The local backend does so, see
  above. The remote path of \<open>upsertDay\<close> does not merge. It sends \<open>data\<close> as the whole
  payload of the row, the service replaces the payload of the row of that date, and
  the function returns the payload written. On an empty table, \<open>upsertDay(d,
  {wakeTime: "07:00"})\<close> followed by \<open>upsertDay(d, {notes: "x"})\<close> returns and stores
  \<open>{notes: "x"}\<close>: the field \<open>wakeTime\<close>, which only the first partial record has, is
  lost, where the merge of the two has it.
\<close>

theorem upsertDay_remote_replaces_payload:
  "upsertDay \<lparr> VITE_BACKEND = Some ''Supabase'', VITE_SUPABASE_URL = Some ''https://x.supabase.co'',
       VITE_SUPABASE_KEY = Some ''key'' \<rparr> Up ''2024-05-01'' [''wakeTime'' \<mapsto> JStr ''07:00'']
     (\<lparr> items = Map.empty, writable = True \<rparr>, [])
   = Inr ([''wakeTime'' \<mapsto> JStr ''07:00''],
          (\<lparr> items = Map.empty, writable = True \<rparr>,
           [\<lparr> row_date = ''2024-05-01'', row_payload = [''wakeTime'' \<mapsto> JStr ''07:00''] \<rparr>])) \<and>
   upsertDay \<lparr> VITE_BACKEND = Some ''Supabase'', VITE_SUPABASE_URL = Some ''https://x.supabase.co'',
       VITE_SUPABASE_KEY = Some ''key'' \<rparr> Up ''2024-05-01'' [''notes'' \<mapsto> JStr ''x'']
     (\<lparr> items = Map.empty, writable = True \<rparr>,
      [\<lparr> row_date = ''2024-05-01'', row_payload = [''wakeTime'' \<mapsto> JStr ''07:00''] \<rparr>])
   = Inr ([''notes'' \<mapsto> JStr ''x''],
          (\<lparr> items = Map.empty, writable = True \<rparr>,
           [\<lparr> row_date = ''2024-05-01'', row_payload = [''notes'' \<mapsto> JStr ''x''] \<rparr>])) \<and>
   readDay \<lparr> VITE_BACKEND = Some ''Supabase'', VITE_SUPABASE_URL = Some ''https://x.supabase.co'',
       VITE_SUPABASE_KEY = Some ''key'' \<rparr> Up ''2024-05-01''
     (\<lparr> items = Map.empty, writable = True \<rparr>,
      [\<lparr> row_date = ''2024-05-01'', row_payload = [''notes'' \<mapsto> JStr ''x''] \<rparr>])
   = Inr (Some (JObj [''notes'' \<mapsto> JStr ''x''])) \<and>
   [''notes'' \<mapsto> JStr ''x''] ''wakeTime'' = None \<and>
   ([''wakeTime'' \<mapsto> JStr ''07:00''] ++ [''notes'' \<mapsto> JStr ''x'']) ''wakeTime''
     = Some (JStr ''07:00'')"
  by (simp add: upsertDay_remote_up[OF useRemote_example]
        readDay_remote_up_single[OF useRemote_example])

subsection \<open>Seed\<close>

lemma fold_rows_dom:
  "dom (fold (\<lambda>r entries. entries(row_date r \<mapsto> JObj (row_payload r))) rows m)
     = dom m \<union> row_date ` set rows"
  by (induction rows arbitrary: m) auto

lemma upsert_row_dates: "row_date ` set (upsert_row r t) = insert (row_date r) (row_date ` set t)"
  by (induction t) auto

lemma seedIfEmpty_nonempty:
  "loadAllDays e h1 st = Inr all \<Longrightarrow> keysEmpty all = Inr False \<Longrightarrow>
   seedIfEmpty e h1 h2 today st = Inr st"
  by (simp add: seedIfEmpty_def)

lemma seedIfEmpty_empty:
  "loadAllDays e h1 st = Inr all \<Longrightarrow> keysEmpty all = Inr True \<Longrightarrow>
   seedIfEmpty e h1 h2 today st =
     (case upsertDay e h2 today seedRecord st of Inl x \<Rightarrow> Inl x | Inr (v, st') \<Rightarrow> Inr st')"
  by (simp add: seedIfEmpty_def)

lemma loadAllDaysLocal_JArr:
  "loadAllDaysLocal ls = Inr (JArr xs) \<Longrightarrow> getItem ls STORAGE_KEY = Some (JSONText (JArr xs))"
  by (auto simp: loadAllDaysLocal_eq split: option.splits raw.splits)

text \<open>After an upsert that returned, the local storage holds a value with a key, or
  the empty array, which the upsert found there and left there.\<close>

lemma local_after_upsert:
  assumes "upsertDayLocal d p ls = Inr (v, ls')"
  shows "\<exists>all. loadAllDaysLocal ls' = Inr all \<and>
           (keysEmpty all = Inr False \<or>
            all = JArr [] \<and> getItem ls STORAGE_KEY = Some (JSONText (JArr [])) \<and> writable ls' \<and>
            getItem ls' STORAGE_KEY = Some (JSONText (JArr [])))"
proof -
  from assms obtain all old all' where l: "loadAllDaysLocal ls = Inr all"
    and s: "setProp all d (JObj v) = Inr all'" and w: "saveAllDaysLocal all' ls = Inr ls'"
    by (rule upsertDayLocal_Inr)
  note l' = saveAllDaysLocal_Inr(1)[OF w]
  show ?thesis
  proof (cases all)
    case (JObj m)
    with s have "all' = JObj (m(d \<mapsto> JObj v))" by auto
    then have "keysEmpty all' = Inr False" by simp
    with l' show ?thesis by blast
  next
    case (JArr xs)
    with s have a: "all' = JArr xs" by auto
    show ?thesis
    proof (cases xs)
      case Nil
      from l JArr Nil have "getItem ls STORAGE_KEY = Some (JSONText (JArr []))"
        by (simp add: loadAllDaysLocal_JArr)
      moreover have "writable ls'"
        using saveAllDaysLocal_Inr(2,3)[OF w] by simp
      moreover have "getItem ls' STORAGE_KEY = Some (JSONText (JArr []))"
        using saveAllDaysLocal_Inr(4)[OF w] a Nil by simp
      ultimately show ?thesis using l' a Nil by simp
    next
      case (Cons y ys)
      with a have "keysEmpty all' = Inr False" by simp
      with l' show ?thesis by blast
    qed
  qed (use s in auto)
qed

lemma upsertDayLocal_empty_array:
  assumes "writable ls" and "getItem ls STORAGE_KEY = Some (JSONText (JArr []))"
  shows "upsertDayLocal d p ls = Inr (p, ls)"
proof -
  have "loadAllDaysLocal ls = Inr (JArr [])"
    using assms(2) by (simp add: loadAllDaysLocal_eq)
  then show ?thesis
    using saveAllDaysLocal_same[OF assms]
    by (simp add: upsertDayLocal_def)
qed

lemma seed_local:
  assumes "\<not> useRemote e" and "loadAllDays e h1 st = Inr (JObj Map.empty)" and "writable (fst st)"
  shows "\<exists>st'. seedIfEmpty e h1 h2 today st = Inr st' \<and>
               loadAllDays e h3 st' = Inr (JObj [today \<mapsto> JObj seedRecord]) \<and> snd st' = snd st"
proof -
  let ?ls = "(fst st)\<lparr> items := (items (fst st))(STORAGE_KEY \<mapsto>
               JSONText (JObj [today \<mapsto> JObj seedRecord])) \<rparr>"
  have a: "loadAllDaysLocal (fst st) = Inr (JObj Map.empty)"
    using assms by (simp add: loadAllDays_local)
  have "upsertDayLocal today seedRecord (fst st) = Inr (seedRecord, ?ls)"
    by (simp add: upsertDayLocal_obj[OF a assms(3)])
  then have u: "upsertDay e h2 today seedRecord st = Inr (seedRecord, (?ls, snd st))"
    by (simp add: upsertDay_local[OF assms(1)])
  have "keysEmpty (JObj Map.empty) = Inr True"
    by simp
  then have "seedIfEmpty e h1 h2 today st = Inr (?ls, snd st)"
    using seedIfEmpty_empty[OF assms(2), of h2 today] u by simp
  moreover have "loadAllDays e h3 (?ls, snd st) = Inr (JObj [today \<mapsto> JObj seedRecord])"
    by (simp add: loadAllDays_local[OF assms(1)] loadAllDaysLocal_eq getItem_def)
  ultimately show ?thesis by simp
qed

lemma seed_remote:
  assumes "useRemote e" and "snd st = []"
  shows "\<exists>st'. seedIfEmpty e Up Up today st = Inr st' \<and>
               loadAllDays e Up st' = Inr (JObj [today \<mapsto> JObj seedRecord]) \<and> fst st' = fst st"
  using assms
  by (simp add: seedIfEmpty_def loadAllDays_remote_up upsertDay_remote_up)

text \<open>A run of \<open>seedIfEmpty\<close> whose load and write both go to the local storage, after
  an upsert into that storage.\<close>

lemma noreseed_after_local:
  assumes u: "upsertDayLocal d p ls = Inr (v, ls')"
    and l: "loadAllDays e h1 (ls', t) = loadAllDaysLocal ls'"
    and w: "upsertDay e h2 today seedRecord (ls', t) =
             (case upsertDayLocal today seedRecord ls' of
                Inl x \<Rightarrow> Inl x | Inr (v, l) \<Rightarrow> Inr (v, (l, t)))"
  shows "seedIfEmpty e h1 h2 today (ls', t) = Inr (ls', t)"
proof -
  from local_after_upsert[OF u] obtain all where a: "loadAllDaysLocal ls' = Inr all"
    and c: "keysEmpty all = Inr False \<or>
            all = JArr [] \<and> getItem ls STORAGE_KEY = Some (JSONText (JArr [])) \<and> writable ls' \<and>
            getItem ls' STORAGE_KEY = Some (JSONText (JArr []))"
    by blast
  from c show ?thesis
  proof
    assume "keysEmpty all = Inr False"
    with a l show ?thesis by (intro seedIfEmpty_nonempty[of _ _ _ all]) simp_all
  next
    assume b: "all = JArr [] \<and> getItem ls STORAGE_KEY = Some (JSONText (JArr [])) \<and> writable ls' \<and>
            getItem ls' STORAGE_KEY = Some (JSONText (JArr []))"
    then have "upsertDayLocal today seedRecord ls' = Inr (seedRecord, ls')"
      by (simp add: upsertDayLocal_empty_array)
    with w have "upsertDay e h2 today seedRecord (ls', t) = Inr (seedRecord, (ls', t))"
      by simp
    moreover have "loadAllDays e h1 (ls', t) = Inr all" "keysEmpty all = Inr True"
      using a l b by simp_all
    ultimately show ?thesis
      by (simp add: seedIfEmpty_empty[of _ _ _ all])
  qed
qed

lemma noreseed_local:
  assumes "\<not> useRemote e" and "upsertDay e h d p st0 = Inr (v, st)"
  shows "seedIfEmpty e h1 h2 today st = Inr st"
proof -
  from assms obtain ls' where u: "upsertDayLocal d p (fst st0) = Inr (v, ls')"
    and s: "st = (ls', snd st0)"
    by (auto simp: upsertDay_local split: sum.splits)
  show ?thesis
    unfolding s
    using loadAllDays_local[OF assms(1), of h1 "(ls', snd st0)"]
      upsertDay_local[OF assms(1), of h2 today seedRecord "(ls', snd st0)"]
    by (intro noreseed_after_local[OF u]) (auto split: sum.splits)
qed

lemma noreseed_remote:
  assumes "useRemote e" and "upsertDay e Up d p st0 = Inr (v, st)"
  shows "seedIfEmpty e Up h2 today st = Inr st"
proof -
  from assms have s: "snd st = upsert_row \<lparr> row_date = d, row_payload = p \<rparr> (snd st0)"
    by (auto simp: upsertDay_remote_up)
  have "d \<in> row_date ` set (snd st)"
    unfolding s upsert_row_dates by simp
  then have "dom (fold (\<lambda>r entries. entries(row_date r \<mapsto> JObj (row_payload r))) (snd st) Map.empty)
               \<noteq> {}"
    unfolding fold_rows_dom by auto
  then show ?thesis
    using assms(1) by (intro seedIfEmpty_nonempty) (auto simp: loadAllDays_remote_up)
qed

lemma noreseed_fallback:
  assumes "useRemote e" and "h \<noteq> Up" and "h1 \<noteq> Up"
    and "getItem (fst st0) STORAGE_KEY \<noteq> Some (JSONText (JArr []))"
    and "upsertDay e h d p st0 = Inr (v, st)"
  shows "seedIfEmpty e h1 h2 today st = Inr st"
proof -
  from upsertDay_fallback[OF assms(1,2), of d p st0] assms(5)
  obtain ls' where u: "upsertDayLocal d p (fst st0) = Inr (v, ls')" and s: "st = (ls', snd st0)"
    by (auto split: sum.splits)
  from local_after_upsert[OF u] assms(4)
  obtain all where a: "loadAllDaysLocal ls' = Inr all" "keysEmpty all = Inr False"
    by blast
  have "loadAllDays e h1 st = Inr all"
    using loadAllDays_fallback[OF assms(1,3), of st] a s by simp
  then show ?thesis
    using a by (intro seedIfEmpty_nonempty[of _ _ _ all]) auto
qed

text \<open>The case left out above: with the text \<open>[]\<close> in the local storage, an upsert
  that falls back returns the record and stores nothing, so that a later load that
  falls back finds no key, and the write of the seed, served by the service, adds a
  row.\<close>

lemma fallback_upsert_into_empty_array:
  "upsertDay \<lparr> VITE_BACKEND = Some ''Supabase'', VITE_SUPABASE_URL = Some ''https://x.supabase.co'',
       VITE_SUPABASE_KEY = Some ''key'' \<rparr> (Unreachable (ServiceError ''offline'')) ''2024-05-01''
     [''mood'' \<mapsto> JStr ''high'']
     (\<lparr> items = [STORAGE_KEY \<mapsto> JSONText (JArr [])], writable = True \<rparr>, [])
   = Inr ([''mood'' \<mapsto> JStr ''high''],
          (\<lparr> items = [STORAGE_KEY \<mapsto> JSONText (JArr [])], writable = True \<rparr>, [])) \<and>
   seedIfEmpty \<lparr> VITE_BACKEND = Some ''Supabase'', VITE_SUPABASE_URL = Some ''https://x.supabase.co'',
       VITE_SUPABASE_KEY = Some ''key'' \<rparr> (Unreachable (ServiceError ''offline'')) Up ''2024-05-01''
     (\<lparr> items = [STORAGE_KEY \<mapsto> JSONText (JArr [])], writable = True \<rparr>, [])
   = Inr (\<lparr> items = [STORAGE_KEY \<mapsto> JSONText (JArr [])], writable = True \<rparr>,
          [\<lparr> row_date = ''2024-05-01'', row_payload = seedRecord \<rparr>])"
proof -
  let ?e = "\<lparr> VITE_BACKEND = Some ''Supabase'', VITE_SUPABASE_URL = Some ''https://x.supabase.co'',
       VITE_SUPABASE_KEY = Some ''key'' \<rparr>"
  let ?ls = "\<lparr> items = [STORAGE_KEY \<mapsto> JSONText (JArr [])], writable = True \<rparr>"
  have g: "writable ?ls" "getItem ?ls STORAGE_KEY = Some (JSONText (JArr []))"
    by (simp_all add: getItem_def)
  have "upsertDay ?e (Unreachable (ServiceError ''offline'')) ''2024-05-01''
          [''mood'' \<mapsto> JStr ''high''] (?ls, [])
        = Inr ([''mood'' \<mapsto> JStr ''high''], (?ls, []))"
    by (simp add: upsertDay_fallback[OF useRemote_example] upsertDayLocal_empty_array[OF g])
  moreover have "loadAllDays ?e (Unreachable (ServiceError ''offline'')) (?ls, []) = Inr (JArr [])"
    by (simp add: loadAllDays_fallback[OF useRemote_example] loadAllDaysLocal_eq g)
  then have "seedIfEmpty ?e (Unreachable (ServiceError ''offline'')) Up ''2024-05-01'' (?ls, [])
        = Inr (?ls, [\<lparr> row_date = ''2024-05-01'', row_payload = seedRecord \<rparr>])"
    by (simp add: seedIfEmpty_def upsertDay_remote_up[OF useRemote_example])
  ultimately show ?thesis by (simp only: simp_thms)
qed

text \<open>
  Claim C8, as stated, fails when the two queries of the remote backend do not share
  their fate. With the remote backend configured, an upsert for a date succeeds on
  the service. When \<open>seedIfEmpty\<close> runs afterwards and its \<open>loadAllDays\<close> query fails,
  the empty local storage is what it sees, and its \<open>upsertDay\<close>, which succeeds,
  replaces the record of that date by the seed: it seeds again after an upsert and it
  changes a store that holds a record.
\<close>

theorem seedIfEmpty_reseeds_after_upsert:
  "upsertDay \<lparr> VITE_BACKEND = Some ''Supabase'', VITE_SUPABASE_URL = Some ''https://x.supabase.co'',
       VITE_SUPABASE_KEY = Some ''key'' \<rparr> Up ''2024-05-01'' [''mood'' \<mapsto> JStr ''high'']
     (\<lparr> items = Map.empty, writable = True \<rparr>, [])
   = Inr ([''mood'' \<mapsto> JStr ''high''],
          (\<lparr> items = Map.empty, writable = True \<rparr>,
           [\<lparr> row_date = ''2024-05-01'', row_payload = [''mood'' \<mapsto> JStr ''high''] \<rparr>])) \<and>
   seedIfEmpty \<lparr> VITE_BACKEND = Some ''Supabase'', VITE_SUPABASE_URL = Some ''https://x.supabase.co'',
       VITE_SUPABASE_KEY = Some ''key'' \<rparr> (Unreachable (ServiceError ''offline'')) Up ''2024-05-01''
     (\<lparr> items = Map.empty, writable = True \<rparr>,
      [\<lparr> row_date = ''2024-05-01'', row_payload = [''mood'' \<mapsto> JStr ''high''] \<rparr>])
   = Inr (\<lparr> items = Map.empty, writable = True \<rparr>,
          [\<lparr> row_date = ''2024-05-01'', row_payload = seedRecord \<rparr>])"
proof -
  let ?e = "\<lparr> VITE_BACKEND = Some ''Supabase'', VITE_SUPABASE_URL = Some ''https://x.supabase.co'',
       VITE_SUPABASE_KEY = Some ''key'' \<rparr>"
  have "loadAllDays ?e (Unreachable (ServiceError ''offline''))
          (\<lparr> items = Map.empty, writable = True \<rparr>,
           [\<lparr> row_date = ''2024-05-01'', row_payload = [''mood'' \<mapsto> JStr ''high''] \<rparr>])
        = Inr (JObj Map.empty)"
    by (simp add: loadAllDays_fallback[OF useRemote_example] loadAllDaysLocal_eq getItem_def)
  then show ?thesis
    by (simp add: seedIfEmpty_def upsertDay_remote_up[OF useRemote_example])
qed

text \<open>
  Claim C8, amended. \<open>seedIfEmpty\<close> calls \<open>upsertDay(today, seed)\<close> when \<open>loadAllDays\<close>
  returns a value without a key, and changes nothing when it returns a value with a
  key. When the load and the write are served by the same backend, the seed goes
  into an empty store only and is then its single record: on the local backend when
  the storage takes the write, and on the remote backend when both queries succeed.
  A run after an upsert that returned changes nothing when its load reads the store
  that the upsert wrote: on the local backend, on the remote backend when both
  queries succeed, and on the remote backend when both fall back to the local
  storage and the text stored there before the upsert was not \<open>[]\<close>.
\<close>

theorem seedIfEmpty_seeds_empty_store_only:
  "(\<forall>all. loadAllDays e h1 st = Inr all \<and> keysEmpty all = Inr False \<longrightarrow>
      seedIfEmpty e h1 h2 today st = Inr st) \<and>
   (\<forall>all. loadAllDays e h1 st = Inr all \<and> keysEmpty all = Inr True \<longrightarrow>
      seedIfEmpty e h1 h2 today st =
        (case upsertDay e h2 today seedRecord st of Inl x \<Rightarrow> Inl x | Inr (v, st') \<Rightarrow> Inr st')) \<and>
   (\<not> useRemote e \<and> loadAllDays e h1 st = Inr (JObj Map.empty) \<and> writable (fst st) \<longrightarrow>
      (\<exists>st'. seedIfEmpty e h1 h2 today st = Inr st' \<and>
             loadAllDays e h3 st' = Inr (JObj [today \<mapsto> JObj seedRecord]))) \<and>
   (useRemote e \<and> snd st = [] \<longrightarrow>
      (\<exists>st'. seedIfEmpty e Up Up today st = Inr st' \<and>
             loadAllDays e Up st' = Inr (JObj [today \<mapsto> JObj seedRecord]))) \<and>
   (\<not> useRemote e \<and> upsertDay e h d p st0 = Inr (v, st1) \<longrightarrow>
      seedIfEmpty e h1 h2 today st1 = Inr st1) \<and>
   (useRemote e \<and> upsertDay e Up d p st0 = Inr (v, st1) \<longrightarrow>
      seedIfEmpty e Up h2 today st1 = Inr st1) \<and>
   (useRemote e \<and> h \<noteq> Up \<and> h1 \<noteq> Up \<and>
    getItem (fst st0) STORAGE_KEY \<noteq> Some (JSONText (JArr [])) \<and>
    upsertDay e h d p st0 = Inr (v, st1) \<longrightarrow>
      seedIfEmpty e h1 h2 today st1 = Inr st1)"
  using seedIfEmpty_nonempty[of e h1 st _ h2 today] seedIfEmpty_empty[of e h1 st _ h2 today]
    seed_local[of e h1 st h2 today h3] seed_remote[of e st today]
    noreseed_local[of e h d p st0 v st1 h1 h2 today]
    noreseed_remote[of e d p st0 v st1 h2 today]
    noreseed_fallback[of e h h1 st0 d p v st1 h2 today]
  by blast

theorem seedIfEmpty_seeds_empty_store_only_witness:
  "\<exists>st'. seedIfEmpty \<lparr> VITE_BACKEND = None, VITE_SUPABASE_URL = None, VITE_SUPABASE_KEY = None \<rparr>
            Up Up ''2024-05-01'' (\<lparr> items = Map.empty, writable = True \<rparr>, []) = Inr st' \<and>
         loadAllDays \<lparr> VITE_BACKEND = None, VITE_SUPABASE_URL = None, VITE_SUPABASE_KEY = None \<rparr>
            Up st' = Inr (JObj [''2024-05-01'' \<mapsto> JObj seedRecord]) \<and>
         seedIfEmpty \<lparr> VITE_BACKEND = None, VITE_SUPABASE_URL = None, VITE_SUPABASE_KEY = None \<rparr>
            Up Up ''2024-05-02'' st' = Inr st'"
proof -
  let ?e = "\<lparr> VITE_BACKEND = None, VITE_SUPABASE_URL = None, VITE_SUPABASE_KEY = None \<rparr>"
  let ?st = "(\<lparr> items = Map.empty, writable = True \<rparr>, []) :: store"
  have l: "loadAllDays ?e Up ?st = Inr (JObj Map.empty)" "writable (fst ?st)"
    by (simp_all add: loadAllDays_local[OF useLocal_example] loadAllDaysLocal_eq getItem_def)
  from seedIfEmpty_seeds_empty_store_only[of ?e Up ?st Up "''2024-05-01''" Up]
    useLocal_example l
  obtain st' where s: "seedIfEmpty ?e Up Up ''2024-05-01'' ?st = Inr st'"
    and a: "loadAllDays ?e Up st' = Inr (JObj [''2024-05-01'' \<mapsto> JObj seedRecord])"
    by blast
  have "keysEmpty (JObj [''2024-05-01'' \<mapsto> JObj seedRecord]) = Inr False"
    by simp
  with seedIfEmpty_seeds_empty_store_only[of ?e Up st' Up "''2024-05-02''"] a
  have "seedIfEmpty ?e Up Up ''2024-05-02'' st' = Inr st'"
    by blast
  with s a show ?thesis by blast
qed

section \<open>Properties of the dashboard handler\<close>

lemma updatedData_wakeTime:
  "wakeTime (habits pd) = Some t \<Longrightarrow> t \<noteq> [] \<Longrightarrow> updatedData data pd ''wakeTime'' = Some (JStr t)"
  by (simp add: updatedData_def Let_def)

lemma extractData_wake_7am:
  "extractData ''I wake at 7 am'' =
     \<lparr> tasks = [], habits = \<lparr> wakeTime = Some ''7 am'', workoutIntended = None \<rparr>,
       mood = ''neutral'', insights = [''Wake time noted: 7 am''], paraCategory = None,
       scheduledItems = [] \<rparr>"
  by code_simp

lemma not_HHMM_7am: "\<not> spec_HHMM ''7 am''"
  by (simp add: spec_HHMM_def)

text \<open>
  Claim C4 (every time of day in a stored record is an \<open>HH:MM\<close> 24-hour string; no
  write persists a literal such as "7 am"). The handler copies \<open>habits.wakeTime\<close>,
  the text captured by the pattern, into the record and saves it; nothing converts
  it. On the local backend with an empty store, the message "I wake at 7 am" makes
  the handler persist \<open>wakeTime: "7 am"\<close> for the current day, which is not an
  \<open>HH:MM\<close> string.
\<close>

theorem onProcess_persists_raw_literal:
  "onProcess \<lparr> VITE_BACKEND = None, VITE_SUPABASE_URL = None, VITE_SUPABASE_KEY = None \<rparr> Up Up
      ''2024-05-01'' Map.empty (extractData ''I wake at 7 am'')
      (\<lparr> items = Map.empty, writable = True \<rparr>, [])
   = Inr (([''wakeTime'' \<mapsto> JStr ''7 am'', ''notes'' \<mapsto> JStr ''AI Insights: Wake time noted: 7 am''],
           JObj [''2024-05-01'' \<mapsto>
              JObj [''wakeTime'' \<mapsto> JStr ''7 am'',
                    ''notes'' \<mapsto> JStr ''AI Insights: Wake time noted: 7 am'']]),
          (\<lparr> items = [STORAGE_KEY \<mapsto> JSONText (JObj [''2024-05-01'' \<mapsto>
              JObj [''wakeTime'' \<mapsto> JStr ''7 am'',
                    ''notes'' \<mapsto> JStr ''AI Insights: Wake time noted: 7 am'']])],
             writable = True \<rparr>,
           [])) \<and>
   \<not> spec_HHMM ''7 am''"
proof -
  let ?ls = "\<lparr> items = Map.empty, writable = True \<rparr>"
  have u: "updatedData Map.empty (extractData ''I wake at 7 am'') =
        [''wakeTime'' \<mapsto> JStr ''7 am'', ''notes'' \<mapsto> JStr ''AI Insights: Wake time noted: 7 am'']"
    unfolding extractData_wake_7am by (simp add: updatedData_def Let_def)
  have l: "loadAllDaysLocal ?ls = Inr (JObj Map.empty)" and w: "writable ?ls"
    by (simp_all add: loadAllDaysLocal_eq getItem_def)
  show ?thesis
    unfolding onProcess_def u
    by (simp add: saveDay_def upsertDay_local[OF useLocal_example] loadAllDays_local[OF useLocal_example]
          upsertDayLocal_obj[OF l w] loadAllDaysLocal_eq not_HHMM_7am getItem_def)
qed

end
